theory Spec2Isabelle
  imports Complex_Main "HOL-Library.Sublist"
begin

section \<open>Column values\<close>

text \<open>
  Every numeric column of the dashboard is a float64 column of the dataframe library.
  A cell is modelled as an extended number: not-a-number, the two infinities, or a finite
  value. Finite arithmetic is exact and the sign of zero is not modelled, except for the
  bin edges, whose rounding is a parameter; the comparisons and the division follow
  IEEE 754, which is what the dataframe library applies element by element and without
  raising.
\<close>

datatype fval = NaN | NInf | Fin real | PInf

datatype py_error = ValueError | OverflowError

fun fle :: "fval \<Rightarrow> fval \<Rightarrow> bool" where
  "fle NaN y = False"
| "fle x NaN = False"
| "fle NInf y = True"
| "fle x PInf = True"
| "fle (Fin a) (Fin b) = (a \<le> b)"
| "fle x y = False"

fun flt :: "fval \<Rightarrow> fval \<Rightarrow> bool" where
  "flt NaN y = False"
| "flt x NaN = False"
| "flt PInf y = False"
| "flt x NInf = False"
| "flt (Fin a) (Fin b) = (a < b)"
| "flt x y = True"

fun fneg :: "fval \<Rightarrow> fval" where
  "fneg NaN = NaN"
| "fneg NInf = PInf"
| "fneg PInf = NInf"
| "fneg (Fin a) = Fin (- a)"

fun fadd :: "fval \<Rightarrow> fval \<Rightarrow> fval" where
  "fadd NaN y = NaN"
| "fadd x NaN = NaN"
| "fadd (Fin a) (Fin b) = Fin (a + b)"
| "fadd PInf NInf = NaN"
| "fadd NInf PInf = NaN"
| "fadd PInf y = PInf"
| "fadd x PInf = PInf"
| "fadd NInf y = NInf"
| "fadd x NInf = NInf"

text \<open>Element-wise true division of two float columns: a zero divisor gives an infinity
  with the sign of the dividend, and \<open>0 / 0\<close> gives not-a-number.\<close>

fun fdiv :: "fval \<Rightarrow> fval \<Rightarrow> fval" where
  "fdiv NaN y = NaN"
| "fdiv x NaN = NaN"
| "fdiv (Fin a) (Fin b) =
     (if b \<noteq> 0 then Fin (a / b)
      else if 0 < a then PInf else if a < 0 then NInf else NaN)"
| "fdiv (Fin a) y = Fin 0"
| "fdiv x (Fin b) = (if 0 \<le> b then x else fneg x)"
| "fdiv x y = NaN"

definition isfinite :: "fval \<Rightarrow> bool" where
  "isfinite x = (case x of Fin a \<Rightarrow> True | _ \<Rightarrow> False)"

section \<open>Records of the dataset\<close>

text \<open>One row of \<open>california_house_price.csv\<close> as \<open>pd.read_csv\<close> delivers it.\<close>

record raw_record =
  longitude :: fval
  latitude :: fval
  housing_median_age :: fval
  total_rooms :: fval
  total_bedrooms :: fval
  population :: fval
  households :: fval
  median_income :: fval
  median_house_value :: fval
  ocean_proximity :: string

text \<open>A row of the dataframe returned by \<open>load_data\<close>: the raw columns and the six
  engineered ones. A bin is kept as the position of its interval among the categories;
  \<open>None\<close> is the missing category.\<close>

record row = raw_record +
  rooms_per_household :: fval
  bedrooms_per_room :: fval
  population_per_household :: fval
  lat_bin :: "nat option"
  age_bin :: "nat option"
  age_category :: string

section \<open>Series operations of the dataframe library\<close>

definition dropna :: "fval list \<Rightarrow> fval list" where
  "dropna s = filter (\<lambda>x. x \<noteq> NaN) s"

definition fmin2 :: "fval \<Rightarrow> fval \<Rightarrow> fval" where
  "fmin2 a b = (if fle b a then b else a)"

definition fmax2 :: "fval \<Rightarrow> fval \<Rightarrow> fval" where
  "fmax2 a b = (if fle a b then b else a)"

text \<open>\<open>Series.min()\<close> and \<open>Series.max()\<close> skip missing cells; on a series without
  any present cell they return not-a-number.\<close>

definition series_min :: "fval list \<Rightarrow> fval" where
  "series_min s = (case dropna s of [] \<Rightarrow> NaN | x # xs \<Rightarrow> foldl fmin2 x xs)"

definition series_max :: "fval list \<Rightarrow> fval" where
  "series_max s = (case dropna s of [] \<Rightarrow> NaN | x # xs \<Rightarrow> foldl fmax2 x xs)"

text \<open>\<open>Series.between(left, right)\<close> is \<open>(s >= left) & (s <= right)\<close>.\<close>

definition between :: "fval list \<Rightarrow> fval \<Rightarrow> fval \<Rightarrow> bool list" where
  "between s left right = map (\<lambda>x. fle left x \<and> fle x right) s"

definition isin :: "string list \<Rightarrow> string list \<Rightarrow> bool list" where
  "isin s vals = map (\<lambda>x. x \<in> set vals) s"

text \<open>The operator \<open>&\<close> on two boolean series, and selection of the rows of a frame
  by a boolean mask.\<close>

definition mask_and :: "bool list \<Rightarrow> bool list \<Rightarrow> bool list" where
  "mask_and a b = map (\<lambda>(p, q). p \<and> q) (zip a b)"

definition select_rows :: "'a list \<Rightarrow> bool list \<Rightarrow> 'a list" where
  "select_rows df m = map fst (filter snd (zip df m))"

section \<open>Binning\<close>

text \<open>The bin edges are the one place where the rounding of float64 decides which
  bin a record gets, so the rounding is a parameter \<open>fl\<close> of the edge computation:
  every operation of the library on the edges is followed by \<open>fl\<close>. Nothing is
  assumed about \<open>fl\<close>; the identity gives exact arithmetic.

  \<open>numpy.linspace(start, stop, n + 1)\<close> multiplies the indices by the step, adds the
  start, and sets the last point to the stop; when the step rounds to zero it divides
  the indices first.\<close>

definition linspace :: "(real \<Rightarrow> real) \<Rightarrow> real \<Rightarrow> real \<Rightarrow> nat \<Rightarrow> real list" where
  "linspace fl start stop n =
     (let delta = fl (stop - start);
          step = fl (delta / real n);
          y = map (\<lambda>k. fl ((if step = 0 then fl (fl (real k / real n) * delta)
                               else fl (real k * step)) + start)) [0..<Suc n]
      in y[n := stop])"

text \<open>The edges \<open>pd.cut\<close> derives from an integer number of bins (with the default
  \<open>right=True\<close>): the observed range is cut evenly and the first edge is lowered by
  0.1 percent of the range; a range of width zero is first widened on both sides. An
  empty column, a column holding an infinity, a column without any present cell and
  edges that coincide after rounding are rejected with \<open>ValueError\<close>.\<close>

definition nbins_to_bins ::
  "(real \<Rightarrow> real) \<Rightarrow> fval list \<Rightarrow> nat \<Rightarrow> py_error + real list" where
  "nbins_to_bins fl x nbins =
     (if x = [] then Inl ValueError
      else case series_min x of
        Fin mn \<Rightarrow>
          (case series_max x of
             Fin mx \<Rightarrow>
               (let bins =
                  (if mn = mx then
                     linspace fl
                       (fl (mn - (if mn \<noteq> 0 then fl (fl 0.001 * \<bar>mn\<bar>) else fl 0.001)))
                       (fl (mx + (if mx \<noteq> 0 then fl (fl 0.001 * \<bar>mx\<bar>) else fl 0.001)))
                       nbins
                   else
                     (let b = linspace fl mn mx nbins; adj = fl (fl (mx - mn) * fl 0.001)
                      in b[0 := fl (b ! 0 - adj)]))
                in if distinct bins \<or> length bins = 2 then Inr bins else Inl ValueError)
           | _ \<Rightarrow> Inl ValueError)
      | _ \<Rightarrow> Inl ValueError)"

definition searchsorted_left :: "real list \<Rightarrow> real \<Rightarrow> nat" where
  "searchsorted_left bins v = length (takeWhile (\<lambda>b. b < v) bins)"

text \<open>Assignment of a cell to the right-closed interval between two consecutive edges;
  a cell at or below the first edge, above the last edge, or missing gets no bin.\<close>

definition bins_to_cuts :: "real list \<Rightarrow> fval \<Rightarrow> nat option" where
  "bins_to_cuts bins x =
     (case x of
        Fin v \<Rightarrow>
          (let ids = searchsorted_left bins v
           in if ids = length bins \<or> ids = 0 then None else Some (ids - 1))
      | _ \<Rightarrow> None)"

definition age_edges :: "real list" where
  "age_edges = map (\<lambda>k. real (5 * k)) [0..<11]"

section \<open>\<open>load_data\<close>\<close>

definition engineer :: "real list \<Rightarrow> raw_record \<Rightarrow> row" where
  "engineer lat_edges r =
     \<lparr> longitude = longitude r, latitude = latitude r,
       housing_median_age = housing_median_age r, total_rooms = total_rooms r,
       total_bedrooms = total_bedrooms r, population = population r,
       households = households r, median_income = median_income r,
       median_house_value = median_house_value r, ocean_proximity = ocean_proximity r,
       rooms_per_household = fdiv (total_rooms r) (households r),
       bedrooms_per_room = fdiv (total_bedrooms r) (total_rooms r),
       population_per_household = fdiv (population r) (households r),
       lat_bin = bins_to_cuts lat_edges (latitude r),
       age_bin = bins_to_cuts age_edges (housing_median_age r),
       age_category =
         (if flt (housing_median_age r) (Fin 20) then ''New (<20)'' else ''Old (>=20)'') \<rparr>"

definition load_data :: "(real \<Rightarrow> real) \<Rightarrow> raw_record list \<Rightarrow> py_error + row list" where
  "load_data fl df =
     (case nbins_to_bins fl (map latitude df) 5 of
        Inl e \<Rightarrow> Inl e
      | Inr lat_edges \<Rightarrow> Inr (map (engineer lat_edges) df))"


section \<open>Sidebar filters\<close>

record criteria =
  age_range :: "fval \<times> fval"
  income_range :: "fval \<times> fval"
  rph_range :: "fval \<times> fval"
  selected_ocean :: "string list"

definition filtered :: "row list \<Rightarrow> criteria \<Rightarrow> row list" where
  "filtered housing c =
     select_rows housing
       (mask_and
         (mask_and
           (mask_and
             (between (map housing_median_age housing)
                (fst (age_range c)) (snd (age_range c)))
             (between (map median_income housing)
                (fst (income_range c)) (snd (income_range c))))
           (between (map rooms_per_household housing)
              (fst (rph_range c)) (snd (rph_range c))))
         (isin (map ocean_proximity housing) (selected_ocean c)))"

text \<open>The four predicates of the specification, row by row: each range is closed on
  both sides and the label has to be one of the selected ones.\<close>

definition in_range :: "fval \<times> fval \<Rightarrow> fval \<Rightarrow> bool" where
  "in_range rng x = (fle (fst rng) x \<and> fle x (snd rng))"

definition passes :: "criteria \<Rightarrow> row \<Rightarrow> bool" where
  "passes c r =
     (in_range (age_range c) (housing_median_age r) \<and>
      in_range (income_range c) (median_income r) \<and>
      in_range (rph_range c) (rooms_per_household r) \<and>
      ocean_proximity r \<in> set (selected_ocean c))"

text \<open>Widening of a range (a lower minimum, a higher maximum, or the same bound) and of
  the whole criteria, each criterion widened or held fixed.\<close>

definition widened :: "fval \<times> fval \<Rightarrow> fval \<times> fval \<Rightarrow> bool" where
  "widened r r' =
     ((fst r' = fst r \<or> fle (fst r') (fst r)) \<and> (snd r' = snd r \<or> fle (snd r) (snd r')))"

definition widened_criteria :: "criteria \<Rightarrow> criteria \<Rightarrow> bool" where
  "widened_criteria c c' =
     (widened (age_range c) (age_range c') \<and>
      widened (income_range c) (income_range c') \<and>
      widened (rph_range c) (rph_range c') \<and>
      set (selected_ocean c) \<subseteq> set (selected_ocean c'))"

text \<open>\<open>Series.unique()\<close>: the distinct values in order of first appearance.\<close>

definition unique :: "'a list \<Rightarrow> 'a list" where
  "unique s = rev (remdups (rev s))"




section \<open>Summary of the filtered view\<close>

text \<open>\<open>Series.mean()\<close> skips missing cells and is not-a-number when no cell is
  present; it does not raise.\<close>

definition series_mean :: "fval list \<Rightarrow> fval" where
  "series_mean s =
     (let xs = dropna s
      in if xs = [] then NaN else fdiv (foldl fadd (Fin 0) xs) (Fin (real (length xs))))"

text \<open>The format specifications \<open>,.0f\<close>, \<open>.2f\<close> and \<open>,\<close> of the three metric
  cards: fixed-point notation with rounding to nearest, ties to even, an optional comma
  between groups of three digits, and the texts \<open>nan\<close>, \<open>inf\<close> and \<open>-inf\<close> for the
  values that are not finite.\<close>

definition digit_char :: "nat \<Rightarrow> char" where
  "digit_char d = ''0123456789'' ! d"

fun digits10 :: "nat \<Rightarrow> string" where
  "digits10 n =
     (if n < 10 then [digit_char n] else digits10 (n div 10) @ [digit_char (n mod 10)])"

declare digits10.simps [simp del]

fun group3 :: "string \<Rightarrow> string" where
  "group3 (a # b # c # d # rest) = a # b # c # CHR '','' # group3 (d # rest)"
| "group3 s = s"

definition thousands :: "string \<Rightarrow> string" where
  "thousands ds = rev (group3 (rev ds))"

definition round_half_even :: "real \<Rightarrow> int" where
  "round_half_even x =
     (let f = \<lfloor>x\<rfloor>; d = x - of_int f
      in if d < 1 / 2 then f else if 1 / 2 < d then f + 1
         else if even f then f else f + 1)"

definition format_fixed :: "bool \<Rightarrow> nat \<Rightarrow> fval \<Rightarrow> string" where
  "format_fixed comma prec x =
     (case x of
        NaN \<Rightarrow> ''nan''
      | PInf \<Rightarrow> ''inf''
      | NInf \<Rightarrow> ''-inf''
      | Fin a \<Rightarrow>
          (let n = nat (round_half_even (\<bar>a\<bar> * 10 ^ prec));
               whole = digits10 (n div 10 ^ prec);
               frac = digits10 (n mod 10 ^ prec)
           in (if a < 0 then ''-'' else []) @
              (if comma then thousands whole else whole) @
              (if prec = 0 then []
               else ''.'' @ replicate (prec - length frac) (CHR ''0'') @ frac)))"

text \<open>The texts handed to \<open>k1.metric\<close>, \<open>k2.metric\<close> and \<open>k3.metric\<close>.\<close>

definition kpi_metrics :: "row list \<Rightarrow> string \<times> string \<times> string" where
  "kpi_metrics view =
     (''$'' @ format_fixed True 0 (series_mean (map median_house_value view)),
      format_fixed False 2 (series_mean (map median_income view)),
      thousands (digits10 (length view)))"

text \<open>The group aggregates behind the charts: the mean house value of each of the five
  latitude bins (\<open>observed=False\<close> keeps the empty ones), and the house values of each
  ocean-proximity label present in the view and of the two age categories.\<close>

definition lat_value :: "row list \<Rightarrow> (nat \<times> fval) list" where
  "lat_value view =
     map (\<lambda>k. (k, series_mean (map median_house_value
                       (filter (\<lambda>r. lat_bin r = Some k) view)))) [0..<5]"

definition ocean_boxes :: "row list \<Rightarrow> (string \<times> fval list) list" where
  "ocean_boxes view =
     map (\<lambda>c. (c, map median_house_value (filter (\<lambda>r. ocean_proximity r = c) view)))
       (unique (map ocean_proximity view))"

definition age_boxes :: "row list \<Rightarrow> (string \<times> fval list) list" where
  "age_boxes view =
     map (\<lambda>c. (c, map median_house_value (filter (\<lambda>r. age_category r = c) view)))
       [''New (<20)'', ''Old (>=20)'']"


section \<open>Correlation heatmap\<close>











section \<open>Example data\<close>

definition csv_record ::
  "real \<Rightarrow> real \<Rightarrow> real \<Rightarrow> real \<Rightarrow> real \<Rightarrow> real \<Rightarrow> real \<Rightarrow> real \<Rightarrow> real \<Rightarrow> string \<Rightarrow> raw_record" where
  "csv_record lon lat age rooms bedrooms pop hh inc val ocean =
     \<lparr> longitude = Fin lon, latitude = Fin lat, housing_median_age = Fin age,
       total_rooms = Fin rooms, total_bedrooms = Fin bedrooms, population = Fin pop,
       households = Fin hh, median_income = Fin inc, median_house_value = Fin val,
       ocean_proximity = ocean \<rparr>"

text \<open>Three districts with households 2, 0 and 4 and total rooms 4, 5 and 8 (the
  scenario of the specification); a fourth has neither rooms nor households, a fifth has
  households but no rooms.\<close>

definition district_a :: raw_record where
  "district_a = csv_record (-122) 35 41 4 1 6 2 8 452600 ''NEAR BAY''"

definition district_b :: raw_record where
  "district_b = csv_record (-121) 36 50 5 2 3 0 3 100000 ''INLAND''"

definition district_c :: raw_record where
  "district_c = csv_record (-120) 40 52 8 2 10 4 5 200000 ''INLAND''"

definition district_d :: raw_record where
  "district_d = csv_record (-119) 38 10 0 0 0 0 4 150000 ''INLAND''"

definition district_e :: raw_record where
  "district_e = csv_record (-118) 37 20 0 0 7 2 6 300000 ''NEAR OCEAN''"

definition example_edges :: "real list" where
  "example_edges = [34995 / 1000, 36, 37, 38, 39, 40]"

definition example_csv :: "raw_record list" where
  "example_csv = [district_a, district_b, district_c, district_d, district_e]"

definition example_housing :: "row list" where
  "example_housing = map (engineer example_edges) example_csv"

text \<open>A district with 12 rooms per household; a district whose age is not a whole
  number; a district whose income cell is blank; a district whose age cell is blank; a
  district whose latitude is infinite.\<close>

definition district_f :: raw_record where
  "district_f = csv_record (-117) 40 30 24 4 5 2 7 250000 ''INLAND''"

definition district_g :: raw_record where
  "district_g = csv_record (-116) 40 (83 / 2) 6 1 5 2 5 180000 ''INLAND''"

definition district_h :: raw_record where
  "district_h = (csv_record (-115) 38 30 6 1 5 2 0 180000 ''INLAND'')
     \<lparr> median_income := NaN \<rparr>"

definition district_j :: raw_record where
  "district_j = (csv_record (-113) 37 41 6 1 5 2 6 180000 ''INLAND'')
     \<lparr> housing_median_age := NaN \<rparr>"


definition capped_csv :: "raw_record list" where
  "capped_csv = [district_a, district_f]"

definition capped_housing :: "row list" where
  "capped_housing = map (engineer example_edges) capped_csv"

definition ragged_csv :: "raw_record list" where
  "ragged_csv = [district_a, district_g, district_h, district_j]"

definition ragged_housing :: "row list" where
  "ragged_housing = map (engineer example_edges) ragged_csv"

definition whole_csv :: "raw_record list" where
  "whole_csv = [district_a, district_c, district_e]"

definition whole_housing :: "row list" where
  "whole_housing = map (engineer example_edges) whole_csv"

definition narrow_criteria :: criteria where
  "narrow_criteria =
     \<lparr> age_range = (Fin 0, Fin 45), income_range = (Fin 0, Fin 20),
       rph_range = (Fin 1, Fin 3), selected_ocean = [''NEAR BAY''] \<rparr>"

definition wide_criteria :: criteria where
  "wide_criteria =
     \<lparr> age_range = (Fin 0, Fin 60), income_range = (Fin 0, Fin 20),
       rph_range = (Fin 0, Fin 10),
       selected_ocean = [''NEAR BAY'', ''INLAND'', ''NEAR OCEAN''] \<rparr>"

definition unbounded_criteria :: criteria where
  "unbounded_criteria =
     \<lparr> age_range = (Fin 0, Fin 60), income_range = (Fin 0, Fin 20),
       rph_range = (Fin 0, PInf),
       selected_ocean = [''NEAR BAY'', ''INLAND'', ''NEAR OCEAN''] \<rparr>"

definition no_match_criteria :: criteria where
  "no_match_criteria =
     \<lparr> age_range = (Fin 0, Fin 60), income_range = (Fin 0, Fin 20),
       rph_range = (Fin 0, Fin 10), selected_ocean = [] \<rparr>"

section \<open>Order of the column values\<close>


lemma fle_trans: "fle a b \<Longrightarrow> fle b c \<Longrightarrow> fle a c"
  by (cases a; cases b; cases c) simp_all












lemma subseq_filter_mono:
  "(\<And>x. x \<in> set xs \<Longrightarrow> P x \<Longrightarrow> Q x) \<Longrightarrow> subseq (filter P xs) (filter Q xs)"
  by (induction xs) auto

section \<open>Properties of the filter\<close>

lemma select_rows_map: "select_rows df (map P df) = filter P df"
  by (induction df) (simp_all add: select_rows_def)

lemma mask_and_map: "mask_and (map P df) (map Q df) = map (\<lambda>r. P r \<and> Q r) df"
  by (induction df) (simp_all add: mask_and_def)

lemma between_map:
  "between (map f df) lo hi = map (\<lambda>r. fle lo (f r) \<and> fle (f r) hi) df"
  by (simp add: between_def)

lemma isin_map: "isin (map f df) vals = map (\<lambda>r. f r \<in> set vals) df"
  by (simp add: isin_def)

lemma filtered_filter: "filtered housing c = filter (passes c) housing"
proof -
  have "filtered housing c =
      select_rows housing (map (\<lambda>r. ((in_range (age_range c) (housing_median_age r) \<and>
        in_range (income_range c) (median_income r)) \<and>
        in_range (rph_range c) (rooms_per_household r)) \<and>
        ocean_proximity r \<in> set (selected_ocean c)) housing)"
    unfolding filtered_def between_map isin_map mask_and_map in_range_def ..
  also have "\<dots> = filter (passes c) housing"
    unfolding select_rows_map passes_def by (simp add: conj_assoc)
  finally show ?thesis .
qed

text \<open>
  Claim C6. The filtered view is exactly the records of the frame that satisfy all four
  predicates together, in their original order; in particular it is a subsequence of the
  frame, and it is empty (not an error) when no record satisfies them.
\<close>

theorem filtered_is_conjunction_subsequence:
  "filtered housing c = filter (passes c) housing \<and>
   subseq (filtered housing c) housing \<and>
   (filtered housing c = [] \<longleftrightarrow> \<not> list_ex (passes c) housing)"
proof -
  have "filter (passes c) housing = [] \<longleftrightarrow> \<not> list_ex (passes c) housing"
    by (simp add: filter_empty_conv list_ex_iff)
  then show ?thesis
    by (simp add: filtered_filter)
qed

text \<open>
  Claim C8. Filtering a filtered view again with the same criteria changes nothing.
\<close>

theorem filtered_idempotent: "filtered (filtered housing c) c = filtered housing c"
  by (simp add: filtered_filter)

lemma in_range_widened: "widened r r' \<Longrightarrow> in_range r x \<Longrightarrow> in_range r' x"
  unfolding widened_def in_range_def by (auto intro: fle_trans)

lemma passes_widened: "widened_criteria c c' \<Longrightarrow> passes c r \<Longrightarrow> passes c' r"
  unfolding widened_criteria_def passes_def by (auto intro: in_range_widened)

text \<open>
  Claim C9. Widening any criterion (a lower minimum, a higher maximum, more labels) while
  the others are widened or held fixed never shrinks the view: the old view is a
  subsequence, and so a subset, of the new one.
\<close>

theorem filtered_monotonic:
  assumes "widened_criteria c c'"
  shows "subseq (filtered housing c) (filtered housing c') \<and>
         set (filtered housing c) \<subseteq> set (filtered housing c')"
proof -
  have "subseq (filter (passes c) housing) (filter (passes c') housing)"
    by (rule subseq_filter_mono) (rule passes_widened [OF assms])
  moreover have "set (filter (passes c) housing) \<subseteq> set (filter (passes c') housing)"
    using passes_widened [OF assms] by auto
  ultimately show ?thesis
    unfolding filtered_filter by simp
qed

text \<open>The statement above at the example data, from the narrow to the wide criteria.\<close>

theorem filtered_monotonic_witness:
  "widened_criteria narrow_criteria wide_criteria \<and>
   subseq (filtered example_housing narrow_criteria)
     (filtered example_housing wide_criteria) \<and>
   set (filtered example_housing narrow_criteria)
     \<subseteq> set (filtered example_housing wide_criteria)"
proof -
  have w: "widened_criteria narrow_criteria wide_criteria"
    by (simp add: widened_criteria_def widened_def narrow_criteria_def wide_criteria_def)
  from filtered_monotonic [OF w, of example_housing] w show ?thesis by simp
qed

section \<open>The example data, loaded\<close>

lemma linspace_exact_5:
  "linspace (\<lambda>x. x) a b 5 =
     [a, (b - a) / 5 + a, 2 * ((b - a) / 5) + a, 3 * ((b - a) / 5) + a,
      4 * ((b - a) / 5) + a, b]"
proof -
  have u: "[0..<6] = [0, 1, 2, 3, 4, 5::nat]" by code_simp
  show ?thesis
    by (cases "a = b") (simp_all add: linspace_def u)
qed

lemma age_edges_list: "age_edges = [0, 5, 10, 15, 20, 25, 30, 35, 40, 45, 50]"
proof -
  have "[0..<11] = [0, 1, 2, 3, 4, 5, 6, 7, 8, 9, 10::nat]" by code_simp
  then show ?thesis by (simp add: age_edges_def)
qed

text \<open>With exact arithmetic, every dataset whose latitudes range from 35 to 40 is
  loaded with the same six edges.\<close>

lemma exact_edges_35_40:
  assumes "series_min x = Fin 35" and "series_max x = Fin 40"
  shows "nbins_to_bins (\<lambda>x. x) x 5 = Inr example_edges"
proof -
  have "x \<noteq> []" using assms(1) by (auto simp: series_min_def dropna_def)
  then show ?thesis
    by (simp add: nbins_to_bins_def assms linspace_exact_5 example_edges_def)
qed

lemma exact_load_35_40:
  assumes "series_min (map latitude csv) = Fin 35"
    and "series_max (map latitude csv) = Fin 40"
  shows "load_data (\<lambda>x. x) csv = Inr (map (engineer example_edges) csv)"
  by (simp add: load_data_def exact_edges_35_40 [OF assms])

lemmas example_defs = example_housing_def example_csv_def
  capped_housing_def capped_csv_def ragged_housing_def ragged_csv_def
  whole_housing_def whole_csv_def
  district_a_def district_b_def district_c_def district_d_def district_e_def
  district_f_def district_g_def district_h_def district_j_def csv_record_def engineer_def

lemmas extent_defs = series_min_def series_max_def dropna_def fmin2_def fmax2_def

lemma example_latitude_extent:
  "series_min (map latitude example_csv) = Fin 35 \<and>
   series_max (map latitude example_csv) = Fin 40"
  by (simp add: extent_defs example_defs)

lemma example_loaded: "load_data (\<lambda>x. x) example_csv = Inr example_housing"
  using example_latitude_extent by (simp add: exact_load_35_40 example_housing_def)

lemma example_wide_view:
  "filtered example_housing wide_criteria =
     map (engineer example_edges) [district_a, district_c, district_e]"
  by (simp add: filtered_filter passes_def in_range_def wide_criteria_def example_defs)

section \<open>Records with a ratio that is not finite\<close>

lemma load_data_rows:
  assumes "load_data fl raw = Inr housing"
  shows "\<exists>edges. nbins_to_bins fl (map latitude raw) 5 = Inr edges \<and>
           housing = map (engineer edges) raw"
  using assms by (auto simp: load_data_def split: sum.splits)

lemma fdiv_zero_not_finite: "\<not> isfinite (fdiv x (Fin 0))"
  by (cases x) (simp_all add: isfinite_def)

lemma in_range_finite:
  "isfinite (fst rng) \<Longrightarrow> isfinite (snd rng) \<Longrightarrow> in_range rng x \<Longrightarrow> isfinite x"
  by (cases "fst rng"; cases "snd rng"; cases x) (simp_all add: in_range_def isfinite_def)

text \<open>
  Claim C10, as the code has it. For every choice of criteria whose rooms-per-household
  bounds are finite, the filtered view of a loaded dataset holds only records with a
  finite \<open>rooms_per_household\<close>; in particular no record with \<open>households = 0\<close>
  is in it.
\<close>

theorem filtered_rph_finite:
  assumes "load_data fl raw = Inr housing"
    and "isfinite (fst (rph_range c))" and "isfinite (snd (rph_range c))"
    and "r \<in> set (filtered housing c)"
  shows "isfinite (rooms_per_household r) \<and> households r \<noteq> Fin 0"
proof -
  from assms(4) have r: "r \<in> set housing" and p: "passes c r"
    by (simp_all add: filtered_filter)
  from p have fin: "isfinite (rooms_per_household r)"
    using in_range_finite [OF assms(2,3)] by (simp add: passes_def)
  from load_data_rows [OF assms(1)] r obtain edges q
    where "r = engineer edges q" by auto
  then have "rooms_per_household r = fdiv (total_rooms r) (households r)"
    by (simp add: engineer_def)
  with fin fdiv_zero_not_finite show ?thesis by auto
qed

text \<open>The statement above at the first example district and the wide criteria.\<close>

theorem filtered_rph_finite_witness:
  "load_data (\<lambda>x. x) example_csv = Inr example_housing \<and>
   isfinite (fst (rph_range wide_criteria)) \<and> isfinite (snd (rph_range wide_criteria)) \<and>
   engineer example_edges district_a \<in> set (filtered example_housing wide_criteria) \<and>
   isfinite (rooms_per_household (engineer example_edges district_a)) \<and>
   households (engineer example_edges district_a) \<noteq> Fin 0"
proof -
  have a: "isfinite (fst (rph_range wide_criteria))"
    and b: "isfinite (snd (rph_range wide_criteria))"
    by (simp_all add: wide_criteria_def isfinite_def)
  have m: "engineer example_edges district_a \<in> set (filtered example_housing wide_criteria)"
    by (simp add: example_wide_view)
  from filtered_rph_finite [OF example_loaded a b m] example_loaded a b m
  show ?thesis by simp
qed

text \<open>
  Claim C10 as stated fails: a record with \<open>total_rooms = 0\<close> and two households has
  the finite ratio 0 and stays in the view; and an upper bound of plus infinity keeps the
  record whose ratio is plus infinity.
\<close>

theorem zero_rooms_record_kept:
  "total_rooms (example_housing ! 4) = Fin 0 \<and>
   example_housing ! 4 \<in> set (filtered example_housing wide_criteria) \<and>
   households (example_housing ! 1) = Fin 0 \<and>
   rooms_per_household (example_housing ! 1) = PInf \<and>
   example_housing ! 1 \<in> set (filtered example_housing unbounded_criteria)"
  by (simp add: filtered_filter passes_def in_range_def wide_criteria_def
      unbounded_criteria_def example_defs)

section \<open>The identity filter\<close>









section \<open>Age bins\<close>

lemma age_cut_some:
  "bins_to_cuts age_edges (Fin a) = Some k \<longleftrightarrow>
     k < 10 \<and> 5 * real k < a \<and> a \<le> 5 * real k + 5"
  unfolding bins_to_cuts_def searchsorted_left_def age_edges_list
  by (auto simp: Let_def split: if_splits)

lemma age_cut_none:
  "bins_to_cuts age_edges (Fin a) = None \<longleftrightarrow> a \<le> 0 \<or> 50 < a"
  unfolding bins_to_cuts_def searchsorted_left_def age_edges_list
  by (auto simp: Let_def split: if_splits)

text \<open>
  Claim C4, as the code has it. \<open>age_bin\<close> uses the fixed edges 0, 5, 10, ..., 50,
  independent of the data, and its ten intervals are closed on the right: a record is in
  bin \<open>k\<close> exactly when \<open>5 k < age \<le> 5 k + 5\<close>. The bins cover \<open>(0, 50]\<close>; a record
  falls outside all bins exactly when its age is above 50 or not above 0.
\<close>

theorem age_bin_right_closed:
  assumes "load_data fl raw = Inr housing" and "r \<in> set housing"
    and "housing_median_age r = Fin a"
  shows "(age_bin r = Some k \<longleftrightarrow> k < 10 \<and> 5 * real k < a \<and> a \<le> 5 * real k + 5) \<and>
         (age_bin r = None \<longleftrightarrow> a \<le> 0 \<or> 50 < a)"
proof -
  from load_data_rows [OF assms(1)] assms(2) obtain edges q
    where "r = engineer edges q" by auto
  then have "age_bin r = bins_to_cuts age_edges (housing_median_age r)"
    by (simp add: engineer_def)
  then show ?thesis
    by (simp add: assms(3) age_cut_some age_cut_none)
qed

text \<open>The statement above at the first example district (age 41, bin 8).\<close>

theorem age_bin_right_closed_witness:
  "load_data (\<lambda>x. x) example_csv = Inr example_housing \<and>
   example_housing ! 0 \<in> set example_housing \<and>
   housing_median_age (example_housing ! 0) = Fin 41 \<and>
   (age_bin (example_housing ! 0) = Some 8 \<longleftrightarrow>
      (8::nat) < 10 \<and> 5 * real 8 < 41 \<and> (41::real) \<le> 5 * real 8 + 5) \<and>
   age_bin (example_housing ! 0) = Some 8"
proof -
  have m: "example_housing ! 0 \<in> set example_housing"
    and a: "housing_median_age (example_housing ! 0) = Fin 41"
    by (simp_all add: example_defs)
  from age_bin_right_closed [OF example_loaded m a, of 8] example_loaded m a
  show ?thesis by simp
qed

text \<open>
  Claim C4 as stated fails: a record of age 50 is not outside all bins, it is in the last
  one.
\<close>

theorem age_fifty_is_binned:
  "housing_median_age (example_housing ! 1) = Fin 50 \<and>
   age_bin (example_housing ! 1) = Some 9"
  by (simp add: example_defs bins_to_cuts_def searchsorted_left_def age_edges_list)

section \<open>Summary of an empty view\<close>

lemma upt_5: "[0..<5] = [0, 1, 2, 3, 4]"
  by code_simp

lemma digits10_0: "digits10 0 = ''0''"
  by (simp add: digits10.simps digit_char_def)

text \<open>
  Claim C2, as the code has it. When the filtered view is empty, computing the summary
  does not raise: the record count is 0, the two means are not-a-number and are rendered
  as the texts \<open>$nan\<close> and \<open>nan\<close>; each of the five latitude-bin means is
  not-a-number, there is no ocean-proximity group, and both age-category groups are
  empty.
\<close>

theorem empty_view_summary:
  assumes "filtered housing c = []"
  shows "kpi_metrics (filtered housing c) = (''$nan'', ''nan'', ''0'') \<and>
         lat_value (filtered housing c) = [(0, NaN), (1, NaN), (2, NaN), (3, NaN), (4, NaN)] \<and>
         ocean_boxes (filtered housing c) = [] \<and>
         age_boxes (filtered housing c) = [(''New (<20)'', []), (''Old (>=20)'', [])]"
  unfolding assms
  by (simp add: kpi_metrics_def lat_value_def ocean_boxes_def age_boxes_def series_mean_def
      dropna_def format_fixed_def thousands_def digits10_0 unique_def upt_5)

lemma example_no_match_view: "filtered example_housing no_match_criteria = []"
  by (simp add: filtered_filter passes_def no_match_criteria_def)

text \<open>The statement above at the example data with no label selected.\<close>

theorem empty_view_summary_witness:
  "filtered example_housing no_match_criteria = [] \<and>
   kpi_metrics (filtered example_housing no_match_criteria) = (''$nan'', ''nan'', ''0'') \<and>
   lat_value (filtered example_housing no_match_criteria)
     = [(0, NaN), (1, NaN), (2, NaN), (3, NaN), (4, NaN)] \<and>
   ocean_boxes (filtered example_housing no_match_criteria) = [] \<and>
   age_boxes (filtered example_housing no_match_criteria)
     = [(''New (<20)'', []), (''Old (>=20)'', [])]"
  using empty_view_summary [OF example_no_match_view] example_no_match_view by simp

text \<open>
  Claim C2 as stated fails: on an empty view the mean is not-a-number and goes through
  the number format into the metric cards unchanged.
\<close>

theorem empty_view_renders_nan:
  "filtered example_housing no_match_criteria = [] \<and>
   series_mean (map median_house_value (filtered example_housing no_match_criteria)) = NaN \<and>
   fst (kpi_metrics (filtered example_housing no_match_criteria)) = ''$nan'' \<and>
   fst (snd (kpi_metrics (filtered example_housing no_match_criteria))) = ''nan''"
  by (simp add: example_no_match_view kpi_metrics_def series_mean_def dropna_def
      format_fixed_def)

text \<open>The metric cards of a view that is not empty.\<close>

lemma example_wide_metrics:
  "kpi_metrics (filtered example_housing wide_criteria) = (''$317,533'', ''6.33'', ''3'')"
  by (simp add: example_wide_view kpi_metrics_def series_mean_def dropna_def
      format_fixed_def thousands_def round_half_even_def
      district_a_def district_c_def district_e_def csv_record_def engineer_def
      digits10.simps digit_char_def Let_def)

section \<open>Properties of the correlation matrix\<close>



















section \<open>Derived ratios\<close>








section \<open>Latitude bins\<close>









end
